theory Spec2Isabelle
  imports Complex_Main "HOL-Library.AList"
begin

section \<open>Values of the program\<close>

text \<open>
  The server is JavaScript (\<^verbatim>\<open>src/server.js\<close>, the first of the versions kept in that
  file). Its values are modelled as follows.
  \<^item> A field of a JSON object that holds a string is a \<open>string option\<close>: \<open>None\<close> is
    \<^verbatim>\<open>undefined\<close> (the field is absent). A field that holds a number is a \<open>real option\<close>;
    the arithmetic of the model is exact, the rounding of IEEE doubles is not modelled.
  \<^item> Millisecond clock readings (\<^verbatim>\<open>Date.now()\<close>) and position quantities are \<open>int\<close>.
  \<^item> The limits \<^verbatim>\<open>MAX_CAPITAL_PER_TRADE\<close>, \<^verbatim>\<open>MAX_TOTAL_POSITIONS\<close> and
    \<^verbatim>\<open>MAX_QUANTITY_PER_TRADE\<close> are read from the process environment (or defaulted); the
    model takes the number each of them denotes.
  \<^item> The body of a request (\<^verbatim>\<open>req.body\<close>) is a \<open>signal option\<close>: \<open>None\<close> when no JSON body
    was parsed and it is \<^verbatim>\<open>undefined\<close>, else an object with the fields of a signal.
  \<^item> A plain object used as a dictionary is a map \<open>string \<rightharpoonup> 'v\<close> of its own properties;
    the properties an object inherits from \<^verbatim>\<open>Object.prototype\<close> are not modelled, so
    trading symbols are taken to differ from those names.
\<close>

definition truthy_str :: "string option \<Rightarrow> bool" where
  \<comment> \<open>JavaScript truthiness of a string-valued field: \<^verbatim>\<open>undefined\<close> and \<^verbatim>\<open>""\<close> are falsy.\<close>
  "truthy_str v = (case v of None \<Rightarrow> False | Some s \<Rightarrow> s \<noteq> [])"

definition truthy_num :: "real option \<Rightarrow> bool" where
  \<comment> \<open>JavaScript truthiness of a number-valued field: \<^verbatim>\<open>undefined\<close> and \<^verbatim>\<open>0\<close> are falsy.\<close>
  "truthy_num v = (case v of None \<Rightarrow> False | Some x \<Rightarrow> x \<noteq> 0)"

fun js_split :: "char \<Rightarrow> string \<Rightarrow> string list" where
  \<comment> \<open>\<^verbatim>\<open>s.split(sep)\<close> for a one-character separator: never empty, \<^verbatim>\<open>"".split(":")\<close> is \<^verbatim>\<open>[""]\<close>.\<close>
  "js_split sep [] = [[]]"
| "js_split sep (c # cs) =
     (if c = sep then [] # js_split sep cs
      else (case js_split sep cs of
              [] \<Rightarrow> [[c]]
            | p # ps \<Rightarrow> (c # p) # ps))"

definition js_index :: "'a list \<Rightarrow> nat \<Rightarrow> 'a option" where
  \<comment> \<open>\<^verbatim>\<open>xs[i]\<close>: \<^verbatim>\<open>undefined\<close> out of range.\<close>
  "js_index xs i = (if i < length xs then Some (xs ! i) else None)"


section \<open>Process state\<close>

record instrument =
  instrument_key :: "string option"
  trading_symbol :: "string option"
  exchange :: "string option"
  instrument_type :: "string option"

text \<open>
  The module-level variables of \<^verbatim>\<open>server.js\<close>. \<^verbatim>\<open>recentSignals\<close> is a JavaScript
  \<^verbatim>\<open>Map\<close>, kept as an association list in insertion order (its size and its iteration are
  used); \<^verbatim>\<open>instrumentMap\<close> and \<^verbatim>\<open>symbolToInstrumentMap\<close> are plain objects.
  \<^verbatim>\<open>tokenExpiryTime\<close> starts as \<^verbatim>\<open>null\<close> (\<open>None\<close>).
\<close>

record server =
  upstoxAccessToken :: "string option"
  upstoxRefreshToken :: "string option"
  tokenExpiryTime :: "int option"
  recentSignals :: "(string \<times> int) list"
  instrumentMap :: "string \<rightharpoonup> instrument"
  symbolToInstrumentMap :: "string \<rightharpoonup> instrument"


section \<open>Instrument directory\<close>

definition storeInstrument :: "instrument \<Rightarrow> server \<Rightarrow> server" where
  \<comment> \<open>The callback of \<^verbatim>\<open>instruments.forEach\<close> in \<^verbatim>\<open>syncInstruments\<close> (the same in the
      remote branch and in the local fallback).\<close>
  "storeInstrument inst s =
     (let s1 = (case instrument_key inst of
                  None \<Rightarrow> s
                | Some key \<Rightarrow>
                    if key \<noteq> [] then s\<lparr>instrumentMap := (instrumentMap s)(key \<mapsto> inst)\<rparr> else s)
      in case instrument.trading_symbol inst of
           None \<Rightarrow> s1
         | Some symbol \<Rightarrow>
             if symbol \<noteq> [] then
               (if symbolToInstrumentMap s1 symbol = None \<or> exchange inst = Some ''NSE''
                then s1\<lparr>symbolToInstrumentMap := (symbolToInstrumentMap s1)(symbol \<mapsto> inst)\<rparr>
                else s1)
             else s1)"

text \<open>
  What the outside world gives one segment of a sync: the parsed remote catalog
  (\<open>None\<close> when the download, the decompression or the parse throws) and the parsed
  local file \<^verbatim>\<open>instruments/<segment>.json\<close> (\<open>None\<close> when it does not exist or does not
  parse).
\<close>

record segment_source =
  remote_catalog :: "instrument list option"
  local_catalog :: "instrument list option"

definition segments :: "string list" where
  "segments = [''NSE'', ''BSE'', ''MCX'']"

definition syncSegment :: "segment_source \<Rightarrow> server \<Rightarrow> server" where
  \<comment> \<open>One iteration of \<^verbatim>\<open>for (const segment of segments)\<close>: the \<^verbatim>\<open>try\<close> block, and the
      fallback of its \<^verbatim>\<open>catch\<close>.\<close>
  "syncSegment src s =
     (case remote_catalog src of
        Some instruments \<Rightarrow> fold storeInstrument instruments s
      | None \<Rightarrow>
          (case local_catalog src of
             Some instruments \<Rightarrow> fold storeInstrument instruments s
           | None \<Rightarrow> s))"

definition syncInstruments :: "(string \<Rightarrow> segment_source) \<Rightarrow> server \<Rightarrow> server" where
  "syncInstruments source s = fold (\<lambda>segment. syncSegment (source segment)) segments s"

definition getInstrumentToken :: "server \<Rightarrow> string \<Rightarrow> string option" where
  \<comment> \<open>\<open>None\<close> is the \<^verbatim>\<open>null\<close> of a symbol that is not in the map, and the \<^verbatim>\<open>undefined\<close> of
      an instrument without \<^verbatim>\<open>instrument_key\<close>; the caller tests the result for truthiness.\<close>
  "getInstrumentToken s symbol' =
     (let parts = js_split CHR '':'' symbol';
          tradingSymbol = (if length parts > 1 then parts ! 1 else parts ! 0)
      in case symbolToInstrumentMap s tradingSymbol of
           None \<Rightarrow> None
         | Some instrument \<Rightarrow> instrument_key instrument)"


section \<open>What the handler receives and what it does\<close>

text \<open>
  The body of a webhook request, with the field types of the specification's Signal.
\<close>

record signal =
  token :: "string option"
  symbol :: "string option"
  action :: "string option"
  quantity :: "real option"
  price :: "real option"

text \<open>
  An entry of the brokerage's positions list. The brokerage sends a trading symbol and an
  integer quantity with every entry; on such a quantity \<^verbatim>\<open>parseInt\<close> is the identity.
\<close>

record position =
  trading_symbol :: string
  quantity :: int

record equity_segment =
  available_margin :: real

record funds =
  equity :: "equity_segment option"

record token_pair =
  access_token :: "string option"
  refresh_token :: "string option"

record config =
  WEBHOOK_SECRET :: "string option"
  MAX_CAPITAL_PER_TRADE :: real
  MAX_TOTAL_POSITIONS :: real
  MAX_QUANTITY_PER_TRADE :: real

text \<open>
  What the outside world answers during one request: the clock readings, and the outcome
  of each outbound call (\<open>None\<close>, or \<open>Inl\<close> with the message, when the call throws).
  \<^item> \<open>clock_signal\<close>: \<^verbatim>\<open>Date.now()\<close> in \<^verbatim>\<open>isDuplicateSignal\<close>;
  \<^item> \<open>clock_check\<close>, \<open>clock_refresh\<close>: \<^verbatim>\<open>Date.now()\<close> in the staleness test of
    \<^verbatim>\<open>ensureValidAccessToken\<close> and after the refresh response;
  \<^item> \<open>refresh_reply\<close>: \<^verbatim>\<open>response.data\<close> of the refresh-token exchange;
  \<^item> \<open>positions_reply\<close>, \<open>funds_reply\<close>: \<^verbatim>\<open>response.data.data\<close> of the two fetches;
  \<^item> \<open>order_reply\<close>: the order identifier, or the message of the error caught.
\<close>

record world =
  clock_signal :: int
  clock_check :: int
  refresh_reply :: "token_pair option"
  clock_refresh :: int
  positions_reply :: "position list option"
  funds_reply :: "funds option"
  order_reply :: "string + string"

datatype body = ErrorJson string | StatusJson string "string option"

datatype reason =
    Text string
  | MaxTotalPositionsReached real
  | QuantityExceedsMaxLimit real real
  | RequiredCapitalExceedsMaxLimit real real
  | InsufficientMargin real real

text \<open>
  The observable effects of the handler, in the order they happen: the HTTP response, a
  row for \<^verbatim>\<open>tradingview_logs\<close> (signal, status, reason, order id), and the outbound calls.
  \<open>PlaceOrder\<close> carries the quantity, the instrument token and the transaction type of the
  order body; its other fields are constants. The reasons built from template literals
  are kept as constructors with the numbers they print.
\<close>

datatype effect =
    Respond nat body
  | LogWebhookOrder signal string "reason option" "string option"
  | RefreshRequest "string option"
  | SaveTokensToDB "string option" "string option"
  | GetPositions
  | GetFunds
  | PlaceOrder real string string


section \<open>Helpers of the handler\<close>

definition getPositions :: "position list option \<Rightarrow> position list" where
  \<comment> \<open>\<^verbatim>\<open>response.data.data || []\<close>, and \<^verbatim>\<open>[]\<close> from the \<^verbatim>\<open>catch\<close>.\<close>
  "getPositions reply = (case reply of None \<Rightarrow> [] | Some ps \<Rightarrow> ps)"

definition getFunds :: "funds option \<Rightarrow> funds option" where
  \<comment> \<open>\<^verbatim>\<open>response.data.data || null\<close>, and \<^verbatim>\<open>null\<close> from the \<^verbatim>\<open>catch\<close>.\<close>
  "getFunds reply = reply"

definition DUPLICATE_SIGNAL_WINDOW :: int where
  "DUPLICATE_SIGNAL_WINDOW = 60000"

definition signalKey :: "string \<Rightarrow> string \<Rightarrow> string" where
  \<comment> \<open>The key of \<^verbatim>\<open>recentSignals\<close>: symbol, a hyphen, action.\<close>
  "signalKey symbol' act = symbol' @ ''-'' @ act"

definition isDuplicateSignal :: "int \<Rightarrow> string \<Rightarrow> string \<Rightarrow> server \<Rightarrow> bool \<times> server" where
  \<comment> \<open>\<open>now\<close> is the reading of \<^verbatim>\<open>Date.now()\<close>. \<^verbatim>\<open>lastTime && ...\<close> is falsy for a key that
      is not in the map and for the time stamp \<open>0\<close>.\<close>
  "isDuplicateSignal now symbol' act s =
     (let key = signalKey symbol' act;
          lastTime = map_of (recentSignals s) key
      in if (case lastTime of
               None \<Rightarrow> False
             | Some t \<Rightarrow> t \<noteq> 0 \<and> now - t < DUPLICATE_SIGNAL_WINDOW)
         then (True, s)
         else
           (let recent = AList.update key now (recentSignals s);
                cleaned =
                  (if length recent > 100
                   then filter (\<lambda>(k, v). \<not> (now - v > DUPLICATE_SIGNAL_WINDOW)) recent
                   else recent)
            in (False, s\<lparr>recentSignals := cleaned\<rparr>)))"

definition ensureValidAccessToken :: "world \<Rightarrow> server \<Rightarrow> bool \<times> server \<times> effect list" where
  \<comment> \<open>\<^verbatim>\<open>tokenExpiryTime - 60000\<close> with \<^verbatim>\<open>null\<close> counts the expiry as \<open>0\<close>. The \<^verbatim>\<open>catch\<close>
      returns before any of the three variables is assigned. \<^verbatim>\<open>saveTokensToDB\<close> catches
      its own errors.\<close>
  "ensureValidAccessToken w s =
     (if \<not> truthy_str (upstoxAccessToken s) then (False, s, [])
      else if clock_check w \<ge> (case tokenExpiryTime s of None \<Rightarrow> 0 | Some t \<Rightarrow> t) - 60000 then
        (case refresh_reply w of
           None \<Rightarrow> (False, s, [RefreshRequest (upstoxRefreshToken s)])
         | Some r \<Rightarrow>
             (True,
              s\<lparr>upstoxAccessToken := access_token r,
                upstoxRefreshToken := refresh_token r,
                tokenExpiryTime := Some (clock_refresh w + 23 * 60 * 60 * 1000)\<rparr>,
              [RefreshRequest (upstoxRefreshToken s),
               SaveTokensToDB (access_token r) (refresh_token r)]))
      else (True, s, []))"

definition tokenStale :: "world \<Rightarrow> server \<Rightarrow> bool" where
  \<comment> \<open>The test \<^verbatim>\<open>Date.now() >= tokenExpiryTime - 60000\<close>: the clock is within 60 seconds
      of the recorded expiry, or past it.\<close>
  "tokenStale w s =
     (clock_check w \<ge> (case tokenExpiryTime s of None \<Rightarrow> 0 | Some t \<Rightarrow> t) - 60000)"

definition isRefreshRequest :: "effect \<Rightarrow> bool" where
  "isRefreshRequest e = (case e of RefreshRequest _ \<Rightarrow> True | _ \<Rightarrow> False)"

definition isPlaceOrder :: "effect \<Rightarrow> bool" where
  "isPlaceOrder e = (case e of PlaceOrder _ _ _ \<Rightarrow> True | _ \<Rightarrow> False)"


section \<open>The webhook handler\<close>

text \<open>
  \<^verbatim>\<open>app.post("/webhook/tradingview", ...)\<close>, cut at its checks: each function below is the
  handler from one check to its end, so a signal reaches a check exactly when the
  handler's effects continue with that function. The whole body stands in one
  \<^verbatim>\<open>try\<close>; its \<^verbatim>\<open>catch\<close> logs the signal as failed with the message of the error.
\<close>

definition typeErrorMessage :: "string \<Rightarrow> string" where
  \<comment> \<open>The message of the TypeError thrown when a property is read from \<^verbatim>\<open>undefined\<close>:
      \<^verbatim>\<open>Cannot read properties of undefined (reading 'token')\<close> for the property
      \<^verbatim>\<open>token\<close>.\<close>
  "typeErrorMessage property =
     ''Cannot read properties of undefined (reading '' @ [CHR 0x27] @ property @ [CHR 0x27] @ '')''"

definition logWebhookOrder ::
  "signal option \<Rightarrow> string \<Rightarrow> reason option \<Rightarrow> string option \<Rightarrow> effect list" where
  \<comment> \<open>\<^verbatim>\<open>logWebhookOrder(data, status, reason, orderId)\<close>: one row inserted into
      \<^verbatim>\<open>tradingview_logs\<close>. With \<^verbatim>\<open>data\<close> undefined, building the row throws inside the
      function's own \<^verbatim>\<open>try\<close>, the \<^verbatim>\<open>catch\<close> prints the error and nothing is inserted.\<close>
  "logWebhookOrder data status why orderId =
     (case data of
        None \<Rightarrow> []
      | Some d \<Rightarrow> [LogWebhookOrder d status why orderId])"

definition placeOrder :: "world \<Rightarrow> signal \<Rightarrow> string \<Rightarrow> real \<Rightarrow> string \<Rightarrow> effect list" where
  "placeOrder w data act qty instrumentToken =
     PlaceOrder qty instrumentToken act #
     (case order_reply w of
        Inl errorMsg \<Rightarrow> logWebhookOrder (Some data) ''failed'' (Some (Text errorMsg)) None
      | Inr order_id \<Rightarrow> logWebhookOrder (Some data) ''success'' None (Some order_id))"

definition capitalCheck ::
  "config \<Rightarrow> world \<Rightarrow> signal \<Rightarrow> string \<Rightarrow> real \<Rightarrow> string \<Rightarrow> real \<Rightarrow> effect list" where
  \<comment> \<open>From \<^verbatim>\<open>const price = data.price || 0\<close> on.\<close>
  "capitalCheck cfg w data act qty instrumentToken availableMargin =
     (let price = (case signal.price data of None \<Rightarrow> 0 | Some p \<Rightarrow> p)
      in if price > 0 then
           (let requiredCapital = price * qty
            in if requiredCapital > MAX_CAPITAL_PER_TRADE cfg then
                 logWebhookOrder (Some data) ''skipped''
                    (Some (RequiredCapitalExceedsMaxLimit requiredCapital (MAX_CAPITAL_PER_TRADE cfg)))
                    None
               else if requiredCapital > availableMargin then
                 logWebhookOrder (Some data) ''skipped''
                    (Some (InsufficientMargin requiredCapital availableMargin)) None
               else placeOrder w data act qty instrumentToken)
         else placeOrder w data act qty instrumentToken)"

definition fundsCheck ::
  "config \<Rightarrow> world \<Rightarrow> signal \<Rightarrow> string \<Rightarrow> real \<Rightarrow> string \<Rightarrow> effect list" where
  \<comment> \<open>From \<^verbatim>\<open>const funds = await getFunds()\<close> on.\<close>
  "fundsCheck cfg w data act qty instrumentToken =
     GetFunds #
     (case getFunds (funds_reply w) of
        None \<Rightarrow> logWebhookOrder (Some data) ''failed'' (Some (Text ''could not verify funds'')) None
      | Some funds \<Rightarrow>
          (case equity funds of
             None \<Rightarrow>
               logWebhookOrder (Some data) ''failed''
                 (Some (Text (typeErrorMessage ''available_margin''))) None
           | Some e \<Rightarrow> capitalCheck cfg w data act qty instrumentToken (available_margin e)))"

definition quantityCheck ::
  "config \<Rightarrow> world \<Rightarrow> signal \<Rightarrow> string \<Rightarrow> real \<Rightarrow> string \<Rightarrow> effect list" where
  \<comment> \<open>From \<^verbatim>\<open>if (data.quantity > MAX_QUANTITY_PER_TRADE)\<close> on.\<close>
  "quantityCheck cfg w data act qty instrumentToken =
     (if qty > MAX_QUANTITY_PER_TRADE cfg then
        logWebhookOrder (Some data) ''skipped''
           (Some (QuantityExceedsMaxLimit qty (MAX_QUANTITY_PER_TRADE cfg))) None
      else fundsCheck cfg w data act qty instrumentToken)"

definition activePositions :: "position list \<Rightarrow> position list" where
  \<comment> \<open>\<^verbatim>\<open>positions.filter(p => parseInt(p.quantity) !== 0)\<close>\<close>
  "activePositions positions = filter (\<lambda>p. position.quantity p \<noteq> 0) positions"

definition maxTotalPositionsCheck ::
  "config \<Rightarrow> world \<Rightarrow> signal \<Rightarrow> string \<Rightarrow> real \<Rightarrow> string \<Rightarrow>
     position list \<Rightarrow> position option \<Rightarrow> effect list" where
  \<comment> \<open>From \<^verbatim>\<open>const activePositions = ...\<close> on; \<open>existingPosition\<close> is the variable of the
      handler, \<open>None\<close> when \<^verbatim>\<open>find\<close> returned \<^verbatim>\<open>undefined\<close>.\<close>
  "maxTotalPositionsCheck cfg w data act qty instrumentToken positions existingPosition =
     (if real (length (activePositions positions)) \<ge> MAX_TOTAL_POSITIONS cfg
         \<and> existingPosition = None then
        logWebhookOrder (Some data) ''skipped''
           (Some (MaxTotalPositionsReached (MAX_TOTAL_POSITIONS cfg))) None
      else quantityCheck cfg w data act qty instrumentToken)"

definition positionChecking ::
  "config \<Rightarrow> world \<Rightarrow> signal \<Rightarrow> string \<Rightarrow> string \<Rightarrow> real \<Rightarrow> string \<Rightarrow> effect list" where
  \<comment> \<open>From \<^verbatim>\<open>const positions = await getPositions()\<close> on. \<open>tradingSymbol\<close> is
      \<^verbatim>\<open>data.symbol.split(":")[1]\<close>, \<^verbatim>\<open>undefined\<close> for a symbol without separator.\<close>
  "positionChecking cfg w data symbol' act qty instrumentToken =
     GetPositions #
     (let positions = getPositions (positions_reply w);
          tradingSymbol = js_index (js_split CHR '':'' symbol') 1;
          existingPosition = find (\<lambda>p. Some (position.trading_symbol p) = tradingSymbol) positions;
          continue = maxTotalPositionsCheck cfg w data act qty instrumentToken positions existingPosition
      in if act = ''BUY'' then
           (case existingPosition of
              None \<Rightarrow> continue
            | Some p \<Rightarrow>
                if position.quantity p > 0 then
                  logWebhookOrder (Some data) ''skipped'' (Some (Text ''already have long position'')) None
                else continue)
         else if act = ''SELL'' then
           (case existingPosition of
              None \<Rightarrow> continue
            | Some p \<Rightarrow>
                if position.quantity p < 0 then
                  logWebhookOrder (Some data) ''skipped'' (Some (Text ''already have short position'')) None
                else continue)
         else continue)"

definition afterResponse ::
  "config \<Rightarrow> world \<Rightarrow> server \<Rightarrow> signal \<Rightarrow> string \<Rightarrow> string \<Rightarrow> real \<Rightarrow> server \<times> effect list" where
  \<comment> \<open>From \<^verbatim>\<open>if (!(await ensureValidAccessToken()))\<close> on.\<close>
  "afterResponse cfg w s data symbol' act qty =
     (case ensureValidAccessToken w s of
        (ok, s1, refreshed) \<Rightarrow>
          if \<not> ok then
            (s1, refreshed @
               logWebhookOrder (Some data) ''failed'' (Some (Text ''no valid access token'')) None)
          else
            (case getInstrumentToken s1 symbol' of
               None \<Rightarrow>
                 (s1, refreshed @
                    logWebhookOrder (Some data) ''failed'' (Some (Text ''instrument token not found'')) None)
             | Some instrumentToken \<Rightarrow>
                 if instrumentToken = [] then
                   (s1, refreshed @
                      logWebhookOrder (Some data) ''failed'' (Some (Text ''instrument token not found'')) None)
                 else (s1, refreshed @ positionChecking cfg w data symbol' act qty instrumentToken)))"

definition requiredFields :: "signal \<Rightarrow> (string \<times> string \<times> real) option" where
  \<comment> \<open>\<open>None\<close> when \<^verbatim>\<open>!data.symbol || !data.action || !data.quantity\<close> holds, else the three
      fields.\<close>
  "requiredFields data =
     (if \<not> truthy_str (signal.symbol data) \<or> \<not> truthy_str (signal.action data)
         \<or> \<not> truthy_num (signal.quantity data)
      then None
      else (case (signal.symbol data, signal.action data, signal.quantity data) of
              (Some symbol', Some act, Some qty) \<Rightarrow> Some (symbol', act, qty)
            | _ \<Rightarrow> None))"

definition webhook ::
  "config \<Rightarrow> world \<Rightarrow> server \<Rightarrow> signal option \<Rightarrow> server \<times> effect list" where
  \<comment> \<open>\<open>body\<close> is \<^verbatim>\<open>req.body\<close>: \<open>None\<close> when no JSON body was parsed and it is
      \<^verbatim>\<open>undefined\<close>. Then \<^verbatim>\<open>data.token\<close> throws, the \<^verbatim>\<open>catch\<close> of the handler calls
      \<^verbatim>\<open>logWebhookOrder(req.body, "failed", ...)\<close>, and no response is sent.\<close>
  "webhook cfg w s body =
     (case body of
        None \<Rightarrow> (s, logWebhookOrder None ''failed'' (Some (Text (typeErrorMessage ''token''))) None)
      | Some data \<Rightarrow>
          if \<not> truthy_str (token data) \<or> token data \<noteq> WEBHOOK_SECRET cfg then
            (s, [Respond 401 (ErrorJson ''Unauthorized'')])
          else
            (case requiredFields data of
               None \<Rightarrow> (s, [Respond 400 (ErrorJson ''Invalid payload'')])
             | Some (symbol', act, qty) \<Rightarrow>
                 (case isDuplicateSignal (clock_signal w) symbol' act s of
                    (True, s1) \<Rightarrow>
                      (s1, logWebhookOrder (Some data) ''skipped''
                             (Some (Text ''duplicate signal'')) None @
                           [Respond 200 (StatusJson ''skipped'' (Some ''duplicate signal''))])
                  | (False, s1) \<Rightarrow>
                      (case afterResponse cfg w s1 data symbol' act qty of
                         (s2, effects) \<Rightarrow>
                           (s2, Respond 200 (StatusJson ''received'' None) # effects)))))"

text \<open>
  Requests handled one after the other, each to its end. In the running server the part
  of a request after its first \<^verbatim>\<open>await\<close> may interleave with other requests; the duplicate
  tracker is read and written only before it, in one synchronous step per request, so for
  \<^verbatim>\<open>recentSignals\<close> the order of arrival is the order of this function.
\<close>

fun serve :: "config \<Rightarrow> (world \<times> signal option) list \<Rightarrow> server \<Rightarrow> server" where
  "serve cfg [] s = s"
| "serve cfg ((w, body) # requests) s = serve cfg requests (fst (webhook cfg w s body))"


section \<open>The merge rule of the sync, in closed form\<close>

definition processed :: "(string \<Rightarrow> segment_source) \<Rightarrow> instrument list" where
  \<comment> \<open>The catalog entries one sync passes to the callback, in order.\<close>
  "processed source =
     concat (map (\<lambda>segment.
        case remote_catalog (source segment) of
          Some instruments \<Rightarrow> instruments
        | None \<Rightarrow> (case local_catalog (source segment) of
                     Some instruments \<Rightarrow> instruments
                   | None \<Rightarrow> [])) segments)"

definition entriesFor :: "string \<Rightarrow> instrument list \<Rightarrow> instrument list" where
  "entriesFor symbol' xs = filter (\<lambda>i. instrument.trading_symbol i = Some symbol') xs"

definition nseEntriesFor :: "string \<Rightarrow> instrument list \<Rightarrow> instrument list" where
  "nseEntriesFor symbol' xs = filter (\<lambda>i. exchange i = Some ''NSE'') (entriesFor symbol' xs)"

definition lastWriterNsePreferred :: "instrument list \<Rightarrow> string \<Rightarrow> instrument option" where
  \<comment> \<open>The rule in the words of the specification: the last entry written for a symbol is
      the one kept, except that an NSE entry is preferred to the entries of other
      exchanges.\<close>
  "lastWriterNsePreferred xs symbol' =
     (if nseEntriesFor symbol' xs \<noteq> [] then Some (last (nseEntriesFor symbol' xs))
      else if entriesFor symbol' xs \<noteq> [] then Some (last (entriesFor symbol' xs))
      else None)"

definition firstWriterNsePreferred ::
  "instrument option \<Rightarrow> instrument list \<Rightarrow> string \<Rightarrow> instrument option" where
  \<comment> \<open>The rule of the code: the last NSE entry if there is one, else what the map held
      before, else the first entry.\<close>
  "firstWriterNsePreferred before xs symbol' =
     (if nseEntriesFor symbol' xs \<noteq> [] then Some (last (nseEntriesFor symbol' xs))
      else (case before of
              Some i \<Rightarrow> Some i
            | None \<Rightarrow>
                if entriesFor symbol' xs \<noteq> [] then Some (hd (entriesFor symbol' xs)) else None))"


section \<open>Example data\<close>

definition sbin :: instrument where
  "sbin = \<lparr>instrument_key = Some ''NSE_EQ|INE062A01020'', trading_symbol = Some ''SBIN'',
            exchange = Some ''NSE'', instrument_type = Some ''EQ''\<rparr>"

definition server0 :: server where
  \<comment> \<open>The state at process start, before any sync or login.\<close>
  "server0 = \<lparr>upstoxAccessToken = None, upstoxRefreshToken = None, tokenExpiryTime = None,
               recentSignals = [], instrumentMap = Map.empty, symbolToInstrumentMap = Map.empty\<rparr>"

definition server1 :: server where
  \<comment> \<open>Logged in, token fresh until 100000 s, SBIN loaded.\<close>
  "server1 = \<lparr>upstoxAccessToken = Some ''access-1'', upstoxRefreshToken = Some ''refresh-1'',
               tokenExpiryTime = Some 100000000, recentSignals = [],
               instrumentMap = [''NSE_EQ|INE062A01020'' \<mapsto> sbin],
               symbolToInstrumentMap = [''SBIN'' \<mapsto> sbin]\<rparr>"

definition cfg0 :: config where
  \<comment> \<open>The defaults of the code, and a secret.\<close>
  "cfg0 = \<lparr>WEBHOOK_SECRET = Some ''s3cret'', MAX_CAPITAL_PER_TRADE = 10000,
            MAX_TOTAL_POSITIONS = 5, MAX_QUANTITY_PER_TRADE = 100\<rparr>"

definition world0 :: world where
  \<comment> \<open>At second 1: no open position, a margin of 50000, the order is accepted.\<close>
  "world0 = \<lparr>clock_signal = 1000, clock_check = 1000, refresh_reply = None,
              clock_refresh = 1000, positions_reply = Some [],
              funds_reply = Some \<lparr>equity = Some \<lparr>available_margin = 50000\<rparr>\<rparr>,
              order_reply = Inr ''ORDER-1''\<rparr>"

definition buy_sbin :: signal where
  "buy_sbin = \<lparr>token = Some ''s3cret'', symbol = Some ''NSE:SBIN'', action = Some ''BUY'',
                quantity = Some 10, price = None\<rparr>"

definition sell_sbin :: signal where
  "sell_sbin = \<lparr>token = Some ''s3cret'', symbol = Some ''NSE:SBIN'', action = Some ''SELL'',
                 quantity = Some 10, price = None\<rparr>"


definition gold_bse :: instrument where
  "gold_bse = \<lparr>instrument_key = Some ''BSE_EQ|GOLD'', trading_symbol = Some ''GOLD'',
                exchange = Some ''BSE'', instrument_type = Some ''EQ''\<rparr>"

definition gold_mcx :: instrument where
  "gold_mcx = \<lparr>instrument_key = Some ''MCX_FO|GOLD'', trading_symbol = Some ''GOLD'',
                exchange = Some ''MCX'', instrument_type = Some ''FUT''\<rparr>"

definition sbin_bse :: instrument where
  "sbin_bse = \<lparr>instrument_key = Some ''BSE_EQ|INE062A01020'', trading_symbol = Some ''SBIN'',
                exchange = Some ''BSE'', instrument_type = Some ''EQ''\<rparr>"

definition catalogs :: "string \<Rightarrow> segment_source" where
  \<comment> \<open>NSE and MCX download; BSE fails and is read from the local file.\<close>
  "catalogs segment =
     (if segment = ''NSE'' then \<lparr>remote_catalog = Some [sbin], local_catalog = None\<rparr>
      else if segment = ''BSE'' then
        \<lparr>remote_catalog = None, local_catalog = Some [sbin_bse, gold_bse]\<rparr>
      else if segment = ''MCX'' then \<lparr>remote_catalog = Some [gold_mcx], local_catalog = None\<rparr>
      else \<lparr>remote_catalog = None, local_catalog = None\<rparr>)"


definition world_refresh :: world where
  \<comment> \<open>One second before the expiry of \<open>server1\<close>; the brokerage answers the refresh.\<close>
  "world_refresh = world0\<lparr>clock_signal := 99999000, clock_check := 99999000,
       refresh_reply := Some \<lparr>access_token = Some ''access-2'', refresh_token = Some ''refresh-2''\<rparr>,
       clock_refresh := 99999500\<rparr>"


definition world_at :: "int \<Rightarrow> world" where
  \<comment> \<open>The world of \<open>world0\<close> at another time.\<close>
  "world_at t = world0\<lparr>clock_signal := t, clock_check := t, clock_refresh := t\<rparr>"

definition world_long :: world where
  \<comment> \<open>An open long position of 10 in SBIN.\<close>
  "world_long = world0\<lparr>positions_reply := Some [\<lparr>trading_symbol = ''SBIN'', quantity = 10\<rparr>]\<rparr>"

definition world_flat_first :: world where
  \<comment> \<open>Two entries for SBIN: a flat one, then a long one.\<close>
  "world_flat_first = world0\<lparr>positions_reply :=
     Some [\<lparr>trading_symbol = ''SBIN'', quantity = 0\<rparr>,
           \<lparr>trading_symbol = ''SBIN'', quantity = 10\<rparr>]\<rparr>"

definition world_long_short :: world where
  \<comment> \<open>Two entries for SBIN: a long one, then a short one.\<close>
  "world_long_short = world0\<lparr>positions_reply :=
     Some [\<lparr>trading_symbol = ''SBIN'', quantity = 10\<rparr>,
           \<lparr>trading_symbol = ''SBIN'', quantity = - 10\<rparr>]\<rparr>"

definition five_open :: "position list" where
  "five_open =
     [\<lparr>trading_symbol = ''TCS'', quantity = 5\<rparr>, \<lparr>trading_symbol = ''INFY'', quantity = 3\<rparr>,
      \<lparr>trading_symbol = ''ITC'', quantity = - 2\<rparr>, \<lparr>trading_symbol = ''WIPRO'', quantity = 1\<rparr>,
      \<lparr>trading_symbol = ''HDFCBANK'', quantity = 7\<rparr>]"

definition world_crowded :: world where
  \<comment> \<open>Five open positions, none in SBIN.\<close>
  "world_crowded = world0\<lparr>positions_reply := Some five_open\<rparr>"

definition world_crowded_flat :: world where
  \<comment> \<open>Five open positions, and a flat entry for SBIN.\<close>
  "world_crowded_flat =
     world0\<lparr>positions_reply := Some (\<lparr>trading_symbol = ''SBIN'', quantity = 0\<rparr> # five_open)\<rparr>"

definition world_crowded_long :: world where
  \<comment> \<open>Five open positions, and a long one in SBIN.\<close>
  "world_crowded_long =
     world0\<lparr>positions_reply := Some (five_open @ [\<lparr>trading_symbol = ''SBIN'', quantity = 10\<rparr>])\<rparr>"


section \<open>Logging\<close>

lemma logWebhookOrder_Some [simp]:
  "logWebhookOrder (Some data) status why orderId = [LogWebhookOrder data status why orderId]"
  by (simp add: logWebhookOrder_def)

lemma logWebhookOrder_None [simp]: "logWebhookOrder None status why orderId = []"
  by (simp add: logWebhookOrder_def)

lemma typeErrorMessage_token:
  "typeErrorMessage ''token'' = ''Cannot read properties of undefined (reading 'token')''"
  by (simp add: typeErrorMessage_def)

lemma typeErrorMessage_available_margin:
  "typeErrorMessage ''available_margin'' =
     ''Cannot read properties of undefined (reading 'available_margin')''"
  by (simp add: typeErrorMessage_def)


section \<open>Instrument lookup\<close>

lemma js_split_no_sep: "sep \<notin> set s \<Longrightarrow> js_split sep s = [s]"
  by (induction s) auto

lemma js_split_prefix:
  "sep \<notin> set x \<Longrightarrow> js_split sep (x @ sep # s) = x # js_split sep s"
  by (induction x) auto

text \<open>
  C10. Lookup of the exchange-qualified form \<open>X:S\<close> and of the bare form \<open>S\<close> give the same
  result, for every exchange prefix \<open>X\<close> and bare trading symbol \<open>S\<close> (neither contains the
  separator); when \<open>S\<close> is in the by-symbol map both give the identifier of the instrument
  stored for \<open>S\<close>.
\<close>

theorem getInstrumentToken_qualified_eq_bare:
  assumes "CHR '':'' \<notin> set X" and "CHR '':'' \<notin> set S"
  shows "getInstrumentToken s (X @ '':'' @ S) = getInstrumentToken s S
       \<and> getInstrumentToken s S =
           (case symbolToInstrumentMap s S of None \<Rightarrow> None | Some i \<Rightarrow> instrument_key i)"
proof -
  have bare: "js_split CHR '':'' S = [S]"
    using assms(2) by (rule js_split_no_sep)
  have both: "js_split CHR '':'' (X @ CHR '':'' # S) = [X, S]"
    using assms(1) bare by (simp add: js_split_prefix)
  show ?thesis
    by (simp add: getInstrumentToken_def bare both)
qed

theorem getInstrumentToken_qualified_eq_bare_witness:
  "CHR '':'' \<notin> set ''NSE'' \<and> CHR '':'' \<notin> set ''SBIN''
   \<and> getInstrumentToken server1 ''NSE:SBIN'' = Some ''NSE_EQ|INE062A01020''
   \<and> getInstrumentToken server1 ''SBIN'' = Some ''NSE_EQ|INE062A01020''"
  using getInstrumentToken_qualified_eq_bare [of "''NSE''" "''SBIN''" server1]
  by (simp add: server1_def sbin_def)

section \<open>Instrument sync\<close>

lemma syncInstruments_fold:
  "syncInstruments source s = fold storeInstrument (processed source) s"
  by (simp add: syncInstruments_def processed_def segments_def syncSegment_def
           split: option.splits)

lemma storeInstrument_by_symbol:
  "symbolToInstrumentMap (storeInstrument x s) y =
     (if instrument.trading_symbol x = Some y \<and> y \<noteq> []
         \<and> (symbolToInstrumentMap s y = None \<or> exchange x = Some ''NSE'')
      then Some x else symbolToInstrumentMap s y)"
  by (auto simp: storeInstrument_def Let_def split: option.splits)

lemma entriesFor_Cons:
  "entriesFor y (x # xs) =
     (if instrument.trading_symbol x = Some y then x # entriesFor y xs else entriesFor y xs)"
  by (simp add: entriesFor_def)

lemma nseEntriesFor_Cons:
  "nseEntriesFor y (x # xs) =
     (if instrument.trading_symbol x = Some y \<and> exchange x = Some ''NSE''
      then x # nseEntriesFor y xs else nseEntriesFor y xs)"
  by (simp add: nseEntriesFor_def entriesFor_def)

lemma nseEntriesFor_empty: "entriesFor y xs = [] \<Longrightarrow> nseEntriesFor y xs = []"
  by (simp add: nseEntriesFor_def)

lemma firstWriterNsePreferred_Cons:
  "y \<noteq> [] \<Longrightarrow>
   firstWriterNsePreferred (symbolToInstrumentMap (storeInstrument x s) y) xs y =
   firstWriterNsePreferred (symbolToInstrumentMap s y) (x # xs) y"
  by (cases "symbolToInstrumentMap s y")
     (auto simp: storeInstrument_by_symbol firstWriterNsePreferred_def nseEntriesFor_Cons
        entriesFor_Cons nseEntriesFor_empty)

lemma fold_storeInstrument_by_symbol:
  "y \<noteq> [] \<Longrightarrow>
   symbolToInstrumentMap (fold storeInstrument xs s) y =
     firstWriterNsePreferred (symbolToInstrumentMap s y) xs y"
proof (induction xs arbitrary: s)
  case Nil
  then show ?case
    by (simp add: firstWriterNsePreferred_def nseEntriesFor_def entriesFor_def split: option.splits)
next
  case (Cons x xs)
  have "symbolToInstrumentMap (fold storeInstrument (x # xs) s) y =
        firstWriterNsePreferred (symbolToInstrumentMap (storeInstrument x s) y) xs y"
    using Cons by simp
  also have "\<dots> = firstWriterNsePreferred (symbolToInstrumentMap s y) (x # xs) y"
    using Cons.prems by (rule firstWriterNsePreferred_Cons)
  finally show ?case .
qed

text \<open>
  C6 (as amended). After a sync, the by-symbol map holds for every (non-empty) trading
  symbol: the last NSE entry of that symbol among the catalog entries processed, if there
  is one; otherwise the instrument the map held before the sync, if any; otherwise the
  first entry processed for that symbol. Among entries of other exchanges the first
  writer is kept, not the last.
\<close>

theorem syncInstruments_first_writer_nse_preferred:
  "symbol' \<noteq> [] \<Longrightarrow>
   symbolToInstrumentMap (syncInstruments source s) symbol' =
     firstWriterNsePreferred (symbolToInstrumentMap s symbol') (processed source) symbol'"
  by (simp add: syncInstruments_fold fold_storeInstrument_by_symbol)

lemma processed_catalogs: "processed catalogs = [sbin, sbin_bse, gold_bse, gold_mcx]"
  by (simp add: processed_def segments_def catalogs_def)

theorem syncInstruments_first_writer_nse_preferred_witness:
  "''SBIN'' \<noteq> [] \<and> symbolToInstrumentMap (syncInstruments catalogs server0) ''SBIN'' = Some sbin"
  using syncInstruments_first_writer_nse_preferred [of "''SBIN''" catalogs server0]
  by (simp add: processed_catalogs firstWriterNsePreferred_def nseEntriesFor_def entriesFor_def
        sbin_def sbin_bse_def gold_bse_def gold_mcx_def server0_def)

text \<open>
  C6 as stated fails: with GOLD listed by BSE and then by MCX, and by no NSE entry, the
  last writer is the MCX entry, and the map keeps the BSE entry.
\<close>

theorem syncInstruments_last_writer_counterexample:
  "symbolToInstrumentMap (syncInstruments catalogs server0) ''GOLD'' = Some gold_bse
   \<and> lastWriterNsePreferred (processed catalogs) ''GOLD'' = Some gold_mcx
   \<and> gold_bse \<noteq> gold_mcx"
  by (simp add: syncInstruments_fold processed_catalogs storeInstrument_def
        lastWriterNsePreferred_def nseEntriesFor_def entriesFor_def
        sbin_def sbin_bse_def gold_bse_def gold_mcx_def server0_def)

section \<open>Token lifecycle\<close>

text \<open>
  C9. \<^verbatim>\<open>ensureValidAccessToken\<close> returns true exactly when an access token is present and
  either the clock is earlier than 60 seconds before the recorded expiry, or it is not
  and the refresh-token exchange answered; then the in-memory pair is the answered one
  and the expiry is the clock reading after the answer plus 23 hours. It returns false
  when no token is present, and when the exchange fails; on a failed exchange the access
  token, the refresh token and the expiry are unchanged. At most one exchange is
  attempted.
\<close>

theorem ensureValidAccessToken_contract:
  "(fst (ensureValidAccessToken w s) \<longleftrightarrow>
      truthy_str (upstoxAccessToken s) \<and> (\<not> tokenStale w s \<or> refresh_reply w \<noteq> None))
   \<and> (\<not> truthy_str (upstoxAccessToken s) \<longrightarrow> ensureValidAccessToken w s = (False, s, []))
   \<and> (truthy_str (upstoxAccessToken s) \<and> \<not> tokenStale w s \<longrightarrow>
        ensureValidAccessToken w s = (True, s, []))
   \<and> (truthy_str (upstoxAccessToken s) \<and> tokenStale w s \<and> refresh_reply w = None \<longrightarrow>
        ensureValidAccessToken w s = (False, s, [RefreshRequest (upstoxRefreshToken s)]))
   \<and> (\<forall>r. truthy_str (upstoxAccessToken s) \<and> tokenStale w s \<and> refresh_reply w = Some r \<longrightarrow>
        ensureValidAccessToken w s =
          (True,
           s\<lparr>upstoxAccessToken := access_token r, upstoxRefreshToken := refresh_token r,
             tokenExpiryTime := Some (clock_refresh w + 23 * 60 * 60 * 1000)\<rparr>,
           [RefreshRequest (upstoxRefreshToken s),
            SaveTokensToDB (access_token r) (refresh_token r)]))
   \<and> length (filter isRefreshRequest (snd (snd (ensureValidAccessToken w s)))) \<le> 1"
  by (auto simp: ensureValidAccessToken_def tokenStale_def isRefreshRequest_def split: option.splits)

theorem ensureValidAccessToken_contract_witness:
  "truthy_str (upstoxAccessToken server1) \<and> tokenStale world_refresh server1
   \<and> ensureValidAccessToken world_refresh server1 =
       (True,
        server1\<lparr>upstoxAccessToken := Some ''access-2'', upstoxRefreshToken := Some ''refresh-2'',
                tokenExpiryTime := Some 182799500\<rparr>,
        [RefreshRequest (Some ''refresh-1''), SaveTokensToDB (Some ''access-2'') (Some ''refresh-2'')])
   \<and> ensureValidAccessToken (world_refresh\<lparr>refresh_reply := None\<rparr>) server1 =
       (False, server1, [RefreshRequest (Some ''refresh-1'')])"
  using ensureValidAccessToken_contract [of world_refresh server1]
        ensureValidAccessToken_contract [of "world_refresh\<lparr>refresh_reply := None\<rparr>" server1]
  by (simp add: world_refresh_def world0_def server1_def truthy_str_def tokenStale_def)

section \<open>Authentication of the webhook\<close>

text \<open>
  A request with a parsed body whose token is absent, or differs from the configured
  secret, is answered 401 and has no other effect: the state (the duplicate tracker with
  it) is unchanged and the response is the only effect.
\<close>

lemma webhook_unauthorized:
  assumes "token data = None \<or> token data \<noteq> WEBHOOK_SECRET cfg"
  shows "webhook cfg w s (Some data) = (s, [Respond 401 (ErrorJson ''Unauthorized'')])"
  using assms by (auto simp: webhook_def truthy_str_def)

lemma webhook_unauthorized_example:
  "token (buy_sbin\<lparr>token := Some ''guess''\<rparr>) \<noteq> WEBHOOK_SECRET cfg0
   \<and> webhook cfg0 world0 server1 (Some (buy_sbin\<lparr>token := Some ''guess''\<rparr>)) =
       (server1, [Respond 401 (ErrorJson ''Unauthorized'')])
   \<and> webhook cfg0 world0 server1 (Some (buy_sbin\<lparr>token := None\<rparr>)) =
       (server1, [Respond 401 (ErrorJson ''Unauthorized'')])"
  using webhook_unauthorized [of "buy_sbin\<lparr>token := Some ''guess''\<rparr>" cfg0 world0 server1]
        webhook_unauthorized [of "buy_sbin\<lparr>token := None\<rparr>" cfg0 world0 server1]
  by (simp add: buy_sbin_def cfg0_def)

text \<open>
  C1. The claim: every request whose payload token is absent, or differs from the
  configured secret, is answered 401 and has no other effect. The code fails it for a
  request whose body was not parsed: \<^verbatim>\<open>req.body\<close> is \<^verbatim>\<open>undefined\<close> and the token absent
  with it, reading \<^verbatim>\<open>data.token\<close> throws before the test of the token, the \<^verbatim>\<open>catch\<close>
  logs nothing (building the row throws again), and the handler ends without any
  response: no 401 is sent.
\<close>

theorem webhook_unparsed_body_no_response:
  "webhook cfg w s None = (s, [])
   \<and> Respond 401 (ErrorJson ''Unauthorized'') \<notin> set (snd (webhook cfg w s None))"
  by (simp add: webhook_def)

theorem webhook_unparsed_body_no_response_witness:
  "webhook cfg0 world0 server1 None = (server1, [])
   \<and> filter isPlaceOrder (snd (webhook cfg0 world0 server1 None)) = []"
  using webhook_unparsed_body_no_response [of cfg0 world0 server1]
  by simp


section \<open>The handler as a pipeline\<close>

lemmas handler_defs =
  webhook_def requiredFields_def isDuplicateSignal_def signalKey_def DUPLICATE_SIGNAL_WINDOW_def
  afterResponse_def ensureValidAccessToken_def getInstrumentToken_def positionChecking_def
  maxTotalPositionsCheck_def activePositions_def quantityCheck_def fundsCheck_def
  capitalCheck_def placeOrder_def getPositions_def getFunds_def truthy_str_def truthy_num_def
  js_index_def

lemmas example_defs =
  cfg0_def world0_def server1_def sbin_def buy_sbin_def sell_sbin_def

lemma requiredFields_None_iff:
  "requiredFields data = None \<longleftrightarrow>
     \<not> truthy_str (signal.symbol data) \<or> \<not> truthy_str (signal.action data)
     \<or> \<not> truthy_num (signal.quantity data)"
  by (auto simp: requiredFields_def truthy_str_def truthy_num_def split: option.splits)

text \<open>
  An authenticated, well-shaped signal that is no duplicate, with a valid access token and
  a known instrument, is acknowledged and then handled by \<open>positionChecking\<close>; the later
  checks follow by the definitions of \<open>positionChecking\<close>, \<open>maxTotalPositionsCheck\<close>,
  \<open>quantityCheck\<close>, \<open>fundsCheck\<close> and \<open>capitalCheck\<close>.
\<close>

lemma webhook_reaches_positionChecking:
  assumes "truthy_str (token data)" and "token data = WEBHOOK_SECRET cfg"
      and "requiredFields data = Some (symbol', act, qty)"
      and "isDuplicateSignal (clock_signal w) symbol' act s = (False, s1)"
      and "ensureValidAccessToken w s1 = (True, s2, refreshed)"
      and "getInstrumentToken s2 symbol' = Some tok" and "tok \<noteq> []"
  shows "webhook cfg w s (Some data) =
           (s2, Respond 200 (StatusJson ''received'' None) #
                refreshed @ positionChecking cfg w data symbol' act qty tok)"
  using assms by (simp add: webhook_def afterResponse_def)

lemma webhook_example:
  "webhook cfg0 world0 server1 (Some buy_sbin) =
     (server1\<lparr>recentSignals := [(''NSE:SBIN-BUY'', 1000)]\<rparr>,
      [Respond 200 (StatusJson ''received'' None), GetPositions, GetFunds,
       PlaceOrder 10 ''NSE_EQ|INE062A01020'' ''BUY'',
       LogWebhookOrder buy_sbin ''success'' None (Some ''ORDER-1'')])"
  by (simp add: handler_defs example_defs)


section \<open>Directional conflict\<close>

text \<open>
  What the check does: it looks at one entry only, the first of the fetched list whose
  trading symbol is the part of the signal's symbol after the separator. When that entry
  has a strictly positive quantity a BUY is skipped with the reason "already have long
  position" right after the fetch and a SELL passes on to the position-count check; when
  it has a strictly negative quantity a SELL is skipped with the reason "already have
  short position" and a BUY passes on.
\<close>

lemma directional_conflict_first_entry:
  assumes "js_index (js_split CHR '':'' symbol') 1 = Some ts"
      and "find (\<lambda>p. position.trading_symbol p = ts) (getPositions (positions_reply w)) = Some p"
  shows "(position.quantity p > 0 \<longrightarrow>
            positionChecking cfg w data symbol' ''BUY'' qty tok =
              [GetPositions,
               LogWebhookOrder data ''skipped'' (Some (Text ''already have long position'')) None]
          \<and> positionChecking cfg w data symbol' ''SELL'' qty tok =
              GetPositions #
              maxTotalPositionsCheck cfg w data ''SELL'' qty tok
                (getPositions (positions_reply w)) (Some p))
       \<and> (position.quantity p < 0 \<longrightarrow>
            positionChecking cfg w data symbol' ''SELL'' qty tok =
              [GetPositions,
               LogWebhookOrder data ''skipped'' (Some (Text ''already have short position'')) None]
          \<and> positionChecking cfg w data symbol' ''BUY'' qty tok =
              GetPositions #
              maxTotalPositionsCheck cfg w data ''BUY'' qty tok
                (getPositions (positions_reply w)) (Some p))"
  using assms by (simp add: positionChecking_def)

lemma directional_conflict_first_entry_example:
  "js_index (js_split CHR '':'' ''NSE:SBIN'') 1 = Some ''SBIN''
   \<and> find (\<lambda>p. position.trading_symbol p = ''SBIN'') (getPositions (positions_reply world_long))
       = Some \<lparr>trading_symbol = ''SBIN'', quantity = 10\<rparr>
   \<and> webhook cfg0 world_long server1 (Some buy_sbin) =
     (server1\<lparr>recentSignals := [(''NSE:SBIN-BUY'', 1000)]\<rparr>,
      [Respond 200 (StatusJson ''received'' None), GetPositions,
       LogWebhookOrder buy_sbin ''skipped'' (Some (Text ''already have long position'')) None])
   \<and> webhook cfg0 world_long server1 (Some sell_sbin) =
     (server1\<lparr>recentSignals := [(''NSE:SBIN-SELL'', 1000)]\<rparr>,
      [Respond 200 (StatusJson ''received'' None), GetPositions, GetFunds,
       PlaceOrder 10 ''NSE_EQ|INE062A01020'' ''SELL'',
       LogWebhookOrder sell_sbin ''success'' None (Some ''ORDER-1'')])"
  using directional_conflict_first_entry
          [where symbol' = "''NSE:SBIN''" and ts = "''SBIN''" and w = world_long
             and p = "\<lparr>trading_symbol = ''SBIN'', quantity = 10\<rparr>"
             and cfg = cfg0 and data = buy_sbin and qty = 10 and tok = "''NSE_EQ|INE062A01020''"]
  by (simp add: handler_defs example_defs world_long_def)

text \<open>
  C3. The claim: when the fetched positions list contains an entry for the signal's
  trading symbol with strictly positive quantity, a BUY for that symbol is skipped with a
  long-position reason and reaches neither the later checks nor order placement; a SELL
  is skipped when the quantity is strictly negative. The code fails it when the list has
  more than one entry for the symbol, because only the first is looked at: with a flat
  entry for SBIN before one of quantity 10, the BUY for NSE:SBIN is not skipped and the
  order is placed; with an entry of quantity 10 before one of quantity -10, the SELL is
  not skipped and the order is placed.
\<close>

theorem directional_conflict_missed_after_first_entry:
  "\<lparr>trading_symbol = ''SBIN'', quantity = 10\<rparr>
     \<in> set (getPositions (positions_reply world_flat_first))
   \<and> webhook cfg0 world_flat_first server1 (Some buy_sbin) =
     (server1\<lparr>recentSignals := [(''NSE:SBIN-BUY'', 1000)]\<rparr>,
      [Respond 200 (StatusJson ''received'' None), GetPositions, GetFunds,
       PlaceOrder 10 ''NSE_EQ|INE062A01020'' ''BUY'',
       LogWebhookOrder buy_sbin ''success'' None (Some ''ORDER-1'')])
   \<and> \<lparr>trading_symbol = ''SBIN'', quantity = - 10\<rparr>
     \<in> set (getPositions (positions_reply world_long_short))
   \<and> webhook cfg0 world_long_short server1 (Some sell_sbin) =
     (server1\<lparr>recentSignals := [(''NSE:SBIN-SELL'', 1000)]\<rparr>,
      [Respond 200 (StatusJson ''received'' None), GetPositions, GetFunds,
       PlaceOrder 10 ''NSE_EQ|INE062A01020'' ''SELL'',
       LogWebhookOrder sell_sbin ''success'' None (Some ''ORDER-1'')])"
  by (simp add: handler_defs example_defs world_flat_first_def world_long_short_def)

theorem directional_conflict_missed_after_first_entry_witness:
  "filter isPlaceOrder (snd (webhook cfg0 world_flat_first server1 (Some buy_sbin))) =
     [PlaceOrder 10 ''NSE_EQ|INE062A01020'' ''BUY'']
   \<and> filter isPlaceOrder (snd (webhook cfg0 world_long_short server1 (Some sell_sbin))) =
     [PlaceOrder 10 ''NSE_EQ|INE062A01020'' ''SELL'']"
  using directional_conflict_missed_after_first_entry
  by (simp add: isPlaceOrder_def)


section \<open>Position-count ceiling\<close>

lemma quantityCheck_not_max:
  "quantityCheck cfg w data act qty tok \<noteq>
     [LogWebhookOrder data ''skipped'' (Some (MaxTotalPositionsReached m)) None]"
  by (simp add: quantityCheck_def fundsCheck_def)

text \<open>
  What the check does: the count is taken over the entries with nonzero quantity, the
  exemption over every entry. A signal that reaches the check is skipped for the
  max-positions reason if and only if the count is at least \<open>MAX_TOTAL_POSITIONS\<close> and
  the fetched list has no entry at all, flat or not, whose trading symbol is the one the
  handler took from the signal.
\<close>

lemma max_positions_iff_no_entry:
  "(maxTotalPositionsCheck cfg w data act qty tok positions
        (find (\<lambda>p. Some (position.trading_symbol p) = tradingSymbol) positions) =
      [LogWebhookOrder data ''skipped''
         (Some (MaxTotalPositionsReached (MAX_TOTAL_POSITIONS cfg))) None]
    \<longleftrightarrow>
      real (length (activePositions positions)) \<ge> MAX_TOTAL_POSITIONS cfg
      \<and> (\<forall>p \<in> set positions. Some (position.trading_symbol p) \<noteq> tradingSymbol))
   \<and> ((\<exists>p \<in> set positions. Some (position.trading_symbol p) = tradingSymbol) \<longrightarrow>
        maxTotalPositionsCheck cfg w data act qty tok positions
          (find (\<lambda>p. Some (position.trading_symbol p) = tradingSymbol) positions) =
        quantityCheck cfg w data act qty tok)"
proof -
  have none: "find (\<lambda>p. Some (position.trading_symbol p) = tradingSymbol) positions = None
      \<longleftrightarrow> (\<forall>p \<in> set positions. Some (position.trading_symbol p) \<noteq> tradingSymbol)"
    by (auto simp: find_None_iff)
  show ?thesis
    unfolding maxTotalPositionsCheck_def
    using none quantityCheck_not_max [of cfg w data act qty tok "MAX_TOTAL_POSITIONS cfg"]
    by auto
qed

lemma max_positions_iff_no_entry_example:
  "webhook cfg0 world_crowded server1 (Some buy_sbin) =
     (server1\<lparr>recentSignals := [(''NSE:SBIN-BUY'', 1000)]\<rparr>,
      [Respond 200 (StatusJson ''received'' None), GetPositions,
       LogWebhookOrder buy_sbin ''skipped'' (Some (MaxTotalPositionsReached 5)) None])
   \<and> maxTotalPositionsCheck cfg0 world_crowded_flat buy_sbin ''BUY'' 10 ''NSE_EQ|INE062A01020''
        (getPositions (positions_reply world_crowded_flat))
        (find (\<lambda>p. Some (position.trading_symbol p) = Some ''SBIN'')
           (getPositions (positions_reply world_crowded_flat))) =
      quantityCheck cfg0 world_crowded_flat buy_sbin ''BUY'' 10 ''NSE_EQ|INE062A01020''"
  using max_positions_iff_no_entry
          [where cfg = cfg0 and w = world_crowded and data = buy_sbin and act = "''BUY''"
             and qty = 10 and tok = "''NSE_EQ|INE062A01020''"
             and positions = "getPositions (positions_reply world_crowded)"
             and tradingSymbol = "Some ''SBIN''"]
        max_positions_iff_no_entry
          [where cfg = cfg0 and w = world_crowded_flat and data = buy_sbin and act = "''BUY''"
             and qty = 10 and tok = "''NSE_EQ|INE062A01020''"
             and positions = "getPositions (positions_reply world_crowded_flat)"
             and tradingSymbol = "Some ''SBIN''"]
  by (simp add: handler_defs example_defs world_crowded_def world_crowded_flat_def five_open_def)

text \<open>
  C4. The claim: a signal that reaches the position-count check is skipped for the
  max-positions reason if and only if the number of positions with nonzero quantity is at
  least \<open>MAX_TOTAL_POSITIONS\<close> and the signal's symbol is not already an open (non-flat)
  position. The code fails it when the only entry for the symbol is flat: five positions
  are open, SBIN is none of them, and the BUY for NSE:SBIN is not skipped: the order is
  placed and opens a sixth position.
\<close>

theorem max_positions_flat_entry_exempted:
  "real (length (activePositions (getPositions (positions_reply world_crowded_flat))))
     \<ge> MAX_TOTAL_POSITIONS cfg0
   \<and> ''SBIN'' \<notin> set (map position.trading_symbol
                       (activePositions (getPositions (positions_reply world_crowded_flat))))
   \<and> webhook cfg0 world_crowded_flat server1 (Some buy_sbin) =
     (server1\<lparr>recentSignals := [(''NSE:SBIN-BUY'', 1000)]\<rparr>,
      [Respond 200 (StatusJson ''received'' None), GetPositions, GetFunds,
       PlaceOrder 10 ''NSE_EQ|INE062A01020'' ''BUY'',
       LogWebhookOrder buy_sbin ''success'' None (Some ''ORDER-1'')])"
  by (simp add: handler_defs example_defs world_crowded_flat_def five_open_def)

theorem max_positions_flat_entry_exempted_witness:
  "filter isPlaceOrder (snd (webhook cfg0 world_crowded_flat server1 (Some buy_sbin))) =
     [PlaceOrder 10 ''NSE_EQ|INE062A01020'' ''BUY'']"
  using max_positions_flat_entry_exempted
  by (simp add: isPlaceOrder_def)


section \<open>A symbol without separator\<close>

lemma find_never: "find (\<lambda>p. False) xs = None"
  by (induction xs) simp_all

text \<open>
  C5. For a signal whose symbol contains no \<open>:\<close>, the trading symbol of the position
  matching is \<^verbatim>\<open>undefined\<close> and no fetched position is matched, whatever the list
  holds: the directional-conflict check passes on to the position-count check with no
  existing position, and that check skips the signal whenever the count of open positions
  is at least \<open>MAX_TOTAL_POSITIONS\<close>, with no exemption.
\<close>

theorem no_separator_never_matches:
  assumes "CHR '':'' \<notin> set symbol'"
  shows "positionChecking cfg w data symbol' act qty tok =
           GetPositions #
           maxTotalPositionsCheck cfg w data act qty tok (getPositions (positions_reply w)) None
       \<and> maxTotalPositionsCheck cfg w data act qty tok (getPositions (positions_reply w)) None =
           (if real (length (activePositions (getPositions (positions_reply w))))
                 \<ge> MAX_TOTAL_POSITIONS cfg
            then [LogWebhookOrder data ''skipped''
                    (Some (MaxTotalPositionsReached (MAX_TOTAL_POSITIONS cfg))) None]
            else quantityCheck cfg w data act qty tok)"
proof -
  have "js_index (js_split CHR '':'' symbol') 1 = None"
    using assms by (simp add: js_split_no_sep js_index_def)
  then show ?thesis
    by (simp add: positionChecking_def maxTotalPositionsCheck_def Let_def find_never)
qed

theorem no_separator_never_matches_witness:
  "CHR '':'' \<notin> set ''SBIN''
   \<and> webhook cfg0 world_long server1 (Some (buy_sbin\<lparr>symbol := Some ''SBIN''\<rparr>)) =
     (server1\<lparr>recentSignals := [(''SBIN-BUY'', 1000)]\<rparr>,
      [Respond 200 (StatusJson ''received'' None), GetPositions, GetFunds,
       PlaceOrder 10 ''NSE_EQ|INE062A01020'' ''BUY'',
       LogWebhookOrder (buy_sbin\<lparr>symbol := Some ''SBIN''\<rparr>) ''success'' None (Some ''ORDER-1'')])
   \<and> webhook cfg0 world_crowded_long server1 (Some (sell_sbin\<lparr>symbol := Some ''SBIN''\<rparr>)) =
     (server1\<lparr>recentSignals := [(''SBIN-SELL'', 1000)]\<rparr>,
      [Respond 200 (StatusJson ''received'' None), GetPositions,
       LogWebhookOrder (sell_sbin\<lparr>symbol := Some ''SBIN''\<rparr>) ''skipped''
         (Some (MaxTotalPositionsReached 5)) None])"
  using no_separator_never_matches
          [where symbol' = "''SBIN''" and cfg = cfg0 and w = world_long
             and data = "buy_sbin\<lparr>symbol := Some ''SBIN''\<rparr>" and act = "''BUY''" and qty = 10
             and tok = "''NSE_EQ|INE062A01020''"]
        no_separator_never_matches
          [where symbol' = "''SBIN''" and cfg = cfg0 and w = world_crowded_long
             and data = "sell_sbin\<lparr>symbol := Some ''SBIN''\<rparr>" and act = "''SELL''" and qty = 10
             and tok = "''NSE_EQ|INE062A01020''"]
  by (simp add: handler_defs example_defs world_long_def world_crowded_long_def five_open_def)

section \<open>Quantity ceiling\<close>

lemma ensureValidAccessToken_no_funds:
  "GetFunds \<notin> set (snd (snd (ensureValidAccessToken w s)))"
  by (simp add: ensureValidAccessToken_def split: option.splits)

lemma positionChecking_no_funds:
  "qty > MAX_QUANTITY_PER_TRADE cfg \<Longrightarrow>
   GetFunds \<notin> set (positionChecking cfg w data symbol' act qty tok)"
  by (simp add: positionChecking_def maxTotalPositionsCheck_def quantityCheck_def Let_def
        split: option.splits)

lemma afterResponse_no_funds:
  assumes "qty > MAX_QUANTITY_PER_TRADE cfg"
  shows "GetFunds \<notin> set (snd (afterResponse cfg w s data symbol' act qty))"
proof (cases "ensureValidAccessToken w s")
  case (fields ok s1 refreshed)
  then have "GetFunds \<notin> set refreshed"
    using ensureValidAccessToken_no_funds [of w s] by simp
  then show ?thesis
    using fields positionChecking_no_funds [OF assms]
    by (simp add: afterResponse_def split: option.splits)
qed

lemma requiredFields_quantity:
  "requiredFields data = Some (symbol', act, qty) \<Longrightarrow> signal.quantity data = Some qty"
  by (auto simp: requiredFields_def split: option.splits if_splits)

text \<open>
  C7. A signal whose quantity is strictly greater than \<open>MAX_QUANTITY_PER_TRADE\<close> and that
  reaches the quantity check is skipped there with the quantity-exceeds reason; and
  wherever the handling of such a signal ends, the funds-and-margin fetch is never among
  its effects.
\<close>

theorem quantity_limit_before_funds:
  assumes "qty > MAX_QUANTITY_PER_TRADE cfg"
  shows "quantityCheck cfg w data act qty tok =
           [LogWebhookOrder data ''skipped''
              (Some (QuantityExceedsMaxLimit qty (MAX_QUANTITY_PER_TRADE cfg))) None]
       \<and> (signal.quantity data = Some qty \<longrightarrow>
            GetFunds \<notin> set (snd (webhook cfg w s (Some data))))"
proof -
  have stage: "quantityCheck cfg w data act qty tok =
           [LogWebhookOrder data ''skipped''
              (Some (QuantityExceedsMaxLimit qty (MAX_QUANTITY_PER_TRADE cfg))) None]"
    using assms by (simp add: quantityCheck_def)
  have whole: "GetFunds \<notin> set (snd (webhook cfg w s (Some data)))"
    if q: "signal.quantity data = Some qty"
  proof (cases "requiredFields data")
    case None
    then show ?thesis by (simp add: webhook_def)
  next
    case (Some fields)
    obtain symbol' act' qty' where f: "fields = (symbol', act', qty')"
      by (cases fields)
    have "qty' = qty"
      using requiredFields_quantity [of data symbol' act' qty'] Some f q by simp
    then have "GetFunds \<notin> set (snd (afterResponse cfg w s1 data symbol' act' qty'))" for s1
      using afterResponse_no_funds [OF assms] by simp
    then show ?thesis
      using Some f by (simp add: webhook_def case_prod_beta split: bool.splits)
  qed
  from stage whole show ?thesis by simp
qed

theorem quantity_limit_before_funds_witness:
  "(101::real) > MAX_QUANTITY_PER_TRADE cfg0
   \<and> webhook cfg0 world0 server1 (Some (buy_sbin\<lparr>signal.quantity := Some 101\<rparr>)) =
     (server1\<lparr>recentSignals := [(''NSE:SBIN-BUY'', 1000)]\<rparr>,
      [Respond 200 (StatusJson ''received'' None), GetPositions,
       LogWebhookOrder (buy_sbin\<lparr>signal.quantity := Some 101\<rparr>) ''skipped''
         (Some (QuantityExceedsMaxLimit 101 100)) None])"
  using quantity_limit_before_funds
          [where cfg = cfg0 and qty = 101 and w = world0
             and data = "buy_sbin\<lparr>signal.quantity := Some 101\<rparr>" and act = "''BUY''"
             and tok = "''NSE_EQ|INE062A01020''" and s = server1]
  by (simp add: handler_defs example_defs)


section \<open>Capital ceiling\<close>

lemma ensureValidAccessToken_no_order:
  "filter isPlaceOrder (snd (snd (ensureValidAccessToken w s))) = []"
  by (simp add: ensureValidAccessToken_def isPlaceOrder_def split: option.splits)

lemma positionChecking_no_order:
  assumes "signal.price data = Some p" and "p > 0" and "p * qty > MAX_CAPITAL_PER_TRADE cfg"
  shows "filter isPlaceOrder (positionChecking cfg w data symbol' act qty tok) = []"
  using assms
  by (simp add: positionChecking_def maxTotalPositionsCheck_def quantityCheck_def fundsCheck_def
        capitalCheck_def isPlaceOrder_def Let_def split: option.splits)

lemma afterResponse_no_order:
  assumes "signal.price data = Some p" and "p > 0" and "p * qty > MAX_CAPITAL_PER_TRADE cfg"
  shows "filter isPlaceOrder (snd (afterResponse cfg w s data symbol' act qty)) = []"
proof (cases "ensureValidAccessToken w s")
  case (fields ok s1 refreshed)
  then have "filter isPlaceOrder refreshed = []"
    using ensureValidAccessToken_no_order [of w s] by simp
  then show ?thesis
    using fields positionChecking_no_order [OF assms]
    by (simp add: afterResponse_def isPlaceOrder_def split: option.splits)
qed

text \<open>
  C8. A signal that carries a strictly positive price and reaches the capital check is
  skipped there with the capital-limit reason when price times quantity exceeds
  \<open>MAX_CAPITAL_PER_TRADE\<close> (price 200 and quantity 60 against 10000 in the witness), and
  wherever the handling of such a signal ends, no order is placed; for a signal with no
  price, or price 0, neither the capital ceiling nor the margin test is applied: the
  handler goes on to place the order.
\<close>

theorem capital_ceiling:
  "(\<forall>p. signal.price data = Some p \<and> p > 0 \<and> p * qty > MAX_CAPITAL_PER_TRADE cfg \<longrightarrow>
        capitalCheck cfg w data act qty tok availableMargin =
          [LogWebhookOrder data ''skipped''
             (Some (RequiredCapitalExceedsMaxLimit (p * qty) (MAX_CAPITAL_PER_TRADE cfg))) None]
        \<and> (signal.quantity data = Some qty \<longrightarrow>
             filter isPlaceOrder (snd (webhook cfg w s (Some data))) = []))
   \<and> (signal.price data = None \<or> signal.price data = Some 0 \<longrightarrow>
        capitalCheck cfg w data act qty tok availableMargin = placeOrder w data act qty tok)"
proof -
  have whole: "filter isPlaceOrder (snd (webhook cfg w s (Some data))) = []"
    if p: "signal.price data = Some p" "p > 0" "p * qty > MAX_CAPITAL_PER_TRADE cfg"
      and q: "signal.quantity data = Some qty" for p
  proof (cases "requiredFields data")
    case None
    then show ?thesis by (simp add: webhook_def isPlaceOrder_def)
  next
    case (Some fields)
    obtain symbol' act' qty' where f: "fields = (symbol', act', qty')"
      by (cases fields)
    have "qty' = qty"
      using requiredFields_quantity [of data symbol' act' qty'] Some f q by simp
    then have "filter isPlaceOrder (snd (afterResponse cfg w s1 data symbol' act' qty')) = []"
      for s1
      using afterResponse_no_order [OF p] by simp
    then show ?thesis
      using Some f by (simp add: webhook_def case_prod_beta isPlaceOrder_def split: bool.splits)
  qed
  then show ?thesis
    by (auto simp: capitalCheck_def)
qed

theorem capital_ceiling_witness:
  "(200::real) * 60 > MAX_CAPITAL_PER_TRADE cfg0
   \<and> webhook cfg0 world0 server1 (Some (buy_sbin\<lparr>signal.quantity := Some 60, price := Some 200\<rparr>)) =
     (server1\<lparr>recentSignals := [(''NSE:SBIN-BUY'', 1000)]\<rparr>,
      [Respond 200 (StatusJson ''received'' None), GetPositions, GetFunds,
       LogWebhookOrder (buy_sbin\<lparr>signal.quantity := Some 60, price := Some 200\<rparr>) ''skipped''
         (Some (RequiredCapitalExceedsMaxLimit 12000 10000)) None])
   \<and> webhook cfg0 world0 server1 (Some (buy_sbin\<lparr>signal.quantity := Some 60\<rparr>)) =
     (server1\<lparr>recentSignals := [(''NSE:SBIN-BUY'', 1000)]\<rparr>,
      [Respond 200 (StatusJson ''received'' None), GetPositions, GetFunds,
       PlaceOrder 60 ''NSE_EQ|INE062A01020'' ''BUY'',
       LogWebhookOrder (buy_sbin\<lparr>signal.quantity := Some 60\<rparr>) ''success'' None
         (Some ''ORDER-1'')])"
  using capital_ceiling
          [where data = "buy_sbin\<lparr>signal.quantity := Some 60, price := Some 200\<rparr>"
             and qty = 60 and cfg = cfg0 and w = world0 and act = "''BUY''"
             and tok = "''NSE_EQ|INE062A01020''" and availableMargin = 50000 and s = server1]
        capital_ceiling
          [where data = "buy_sbin\<lparr>signal.quantity := Some 60\<rparr>"
             and qty = 60 and cfg = cfg0 and w = world0 and act = "''BUY''"
             and tok = "''NSE_EQ|INE062A01020''" and availableMargin = 50000 and s = server1]
  by (simp add: handler_defs example_defs)


section \<open>Duplicate suppression\<close>

lemma map_of_filter_keep:
  "map_of rs k = Some v \<Longrightarrow> P (k, v) \<Longrightarrow> map_of (filter P rs) k = Some v"
  by (induction rs) (auto split: if_splits)

lemma isDuplicateSignal_seen:
  assumes "map_of (recentSignals s) (signalKey symbol' act) = Some t"
      and "t \<noteq> 0" and "now - t < 60000"
  shows "isDuplicateSignal now symbol' act s = (True, s)"
  using assms by (simp add: isDuplicateSignal_def signalKey_def DUPLICATE_SIGNAL_WINDOW_def)

lemma isDuplicateSignal_records:
  assumes "isDuplicateSignal now symbol' act s = (False, s1)"
  shows "map_of (recentSignals s1) (signalKey symbol' act) = Some now"
proof -
  have upd: "map_of (AList.update (signalKey symbol' act) now (recentSignals s))
               (signalKey symbol' act) = Some now"
    by (simp add: update_conv')
  have "map_of (filter (\<lambda>(k, v). \<not> (now - v > DUPLICATE_SIGNAL_WINDOW))
          (AList.update (signalKey symbol' act) now (recentSignals s)))
          (signalKey symbol' act) = Some now"
    using upd by (rule map_of_filter_keep) (simp add: DUPLICATE_SIGNAL_WINDOW_def)
  with upd assms show ?thesis
    by (auto simp: isDuplicateSignal_def Let_def signalKey_def split: if_splits)
qed

lemma isDuplicateSignal_keeps:
  assumes "map_of (recentSignals s) key = Some t"
      and "t \<noteq> 0" and "now - t < 60000"
  shows "map_of (recentSignals (snd (isDuplicateSignal now symbol' act s))) key = Some t"
proof (cases "signalKey symbol' act = key")
  case True
  then show ?thesis
    using assms isDuplicateSignal_seen [of s symbol' act t now] by simp
next
  case False
  have upd: "map_of (AList.update (signalKey symbol' act) now (recentSignals s)) key = Some t"
    using False assms(1) by (simp add: update_conv')
  have "map_of (filter (\<lambda>(k, v). \<not> (now - v > DUPLICATE_SIGNAL_WINDOW))
          (AList.update (signalKey symbol' act) now (recentSignals s))) key = Some t"
    using upd
    by (rule map_of_filter_keep) (use assms(3) in \<open>simp add: DUPLICATE_SIGNAL_WINDOW_def\<close>)
  with upd assms(1) show ?thesis
    by (auto simp: isDuplicateSignal_def Let_def signalKey_def)
qed

lemma ensureValidAccessToken_recentSignals:
  "recentSignals (fst (snd (ensureValidAccessToken w s))) = recentSignals s"
  by (simp add: ensureValidAccessToken_def split: option.splits)

lemma afterResponse_recentSignals:
  "recentSignals (fst (afterResponse cfg w s data symbol' act qty)) = recentSignals s"
  using ensureValidAccessToken_recentSignals [of w s]
  by (cases "ensureValidAccessToken w s") (simp add: afterResponse_def split: option.splits)

lemma webhook_recentSignals:
  "recentSignals (fst (webhook cfg w s body)) = recentSignals s
   \<or> (\<exists>symbol' act. recentSignals (fst (webhook cfg w s body)) =
         recentSignals (snd (isDuplicateSignal (clock_signal w) symbol' act s)))"
  by (auto simp: webhook_def case_prod_beta afterResponse_recentSignals
        split: option.splits bool.splits)

lemma webhook_keeps:
  assumes "map_of (recentSignals s) key = Some t"
      and "t \<noteq> 0" and "clock_signal w - t < 60000"
  shows "map_of (recentSignals (fst (webhook cfg w s body))) key = Some t"
  using webhook_recentSignals [of cfg w s body] isDuplicateSignal_keeps [OF assms] assms(1)
  by auto

lemma serve_keeps:
  assumes "map_of (recentSignals s) key = Some t"
      and "t \<noteq> 0" and "\<forall>r \<in> set requests. clock_signal (fst r) - t < 60000"
  shows "map_of (recentSignals (serve cfg requests s)) key = Some t"
  using assms
proof (induction requests arbitrary: s)
  case Nil
  then show ?case by simp
next
  case (Cons r requests)
  obtain w body where r: "r = (w, body)" by (cases r)
  have "map_of (recentSignals (fst (webhook cfg w s body))) key = Some t"
    using Cons.prems r by (intro webhook_keeps) auto
  then show ?case
    using Cons r by simp
qed

lemma webhook_received:
  assumes "webhook cfg w s (Some data) = (s1, Respond 200 (StatusJson ''received'' None) # effects)"
      and "requiredFields data = Some (symbol', act, qty)"
  shows "map_of (recentSignals s1) (signalKey symbol' act) = Some (clock_signal w)"
proof -
  obtain dup s' where d: "isDuplicateSignal (clock_signal w) symbol' act s = (dup, s')"
    by (cases "isDuplicateSignal (clock_signal w) symbol' act s")
  have auth: "\<not> (\<not> truthy_str (token data) \<or> token data \<noteq> WEBHOOK_SECRET cfg)"
    using assms(1) by (auto simp: webhook_def split: if_splits)
  have "\<not> dup"
    using assms d auth by (auto simp: webhook_def)
  then have s1: "s1 = fst (afterResponse cfg w s' data symbol' act qty)"
    using assms d auth by (auto simp: webhook_def split: prod.splits)
  show ?thesis
    using isDuplicateSignal_records [of "clock_signal w" symbol' act s s'] d \<open>\<not> dup\<close>
    by (simp add: s1 afterResponse_recentSignals)
qed

text \<open>
  C2 (as amended). When an authenticated, shape-valid signal has been accepted (answered
  "received", which records its arrival time; clock readings are positive) and a second
  authenticated, shape-valid signal with the same symbol and action arrives strictly less
  than 60000 ms after it, whatever requests were handled in between (none arriving later
  than the second), the second is
  answered with status "skipped" and reason "duplicate signal", a log entry with status
  skipped is written, and nothing else happens: no order is placed, and the state is
  unchanged.
\<close>

theorem duplicate_of_accepted_signal_skipped:
  assumes first_accepted:
        "webhook cfg w1 s0 (Some d1) = (s1, Respond 200 (StatusJson ''received'' None) # effects1)"
      and "requiredFields d1 = Some (symbol', act, qty1)"
      and "clock_signal w1 \<noteq> 0"
      and between: "\<forall>r \<in> set requests. clock_signal (fst r) \<le> clock_signal w2"
      and second_valid: "truthy_str (token d2)" "token d2 = WEBHOOK_SECRET cfg"
        "requiredFields d2 = Some (symbol', act, qty2)"
      and within: "clock_signal w2 - clock_signal w1 < 60000"
  shows "webhook cfg w2 (serve cfg requests s1) (Some d2) =
           (serve cfg requests s1,
            [LogWebhookOrder d2 ''skipped'' (Some (Text ''duplicate signal'')) None,
             Respond 200 (StatusJson ''skipped'' (Some ''duplicate signal''))])"
proof -
  have recorded: "map_of (recentSignals s1) (signalKey symbol' act) = Some (clock_signal w1)"
    using assms(1,2) by (rule webhook_received)
  have "\<forall>r \<in> set requests. clock_signal (fst r) - clock_signal w1 < 60000"
    using between within by auto
  with recorded assms(3)
  have "map_of (recentSignals (serve cfg requests s1)) (signalKey symbol' act)
          = Some (clock_signal w1)"
    by (rule serve_keeps)
  then have "isDuplicateSignal (clock_signal w2) symbol' act (serve cfg requests s1)
          = (True, serve cfg requests s1)"
    using assms(3) within by (rule isDuplicateSignal_seen)
  then show ?thesis
    using second_valid by (simp add: webhook_def)
qed

theorem duplicate_of_accepted_signal_skipped_witness:
  "clock_signal (world_at 31000) - clock_signal world0 < 60000
   \<and> webhook cfg0 (world_at 31000)
        (serve cfg0 [(world_at 20000, Some sell_sbin)]
           (fst (webhook cfg0 world0 server1 (Some buy_sbin))))
        (Some buy_sbin) =
       (server1\<lparr>recentSignals := [(''NSE:SBIN-BUY'', 1000), (''NSE:SBIN-SELL'', 20000)]\<rparr>,
        [LogWebhookOrder buy_sbin ''skipped'' (Some (Text ''duplicate signal'')) None,
         Respond 200 (StatusJson ''skipped'' (Some ''duplicate signal''))])"
proof -
  have first: "webhook cfg0 world0 server1 (Some buy_sbin) =
      (server1\<lparr>recentSignals := [(''NSE:SBIN-BUY'', 1000)]\<rparr>,
       Respond 200 (StatusJson ''received'' None) #
       [GetPositions, GetFunds, PlaceOrder 10 ''NSE_EQ|INE062A01020'' ''BUY'',
        LogWebhookOrder buy_sbin ''success'' None (Some ''ORDER-1'')])"
    by (simp add: handler_defs example_defs)
  have fields: "requiredFields buy_sbin = Some (''NSE:SBIN'', ''BUY'', 10)"
    by (simp add: requiredFields_def truthy_str_def truthy_num_def buy_sbin_def)
  have clock: "clock_signal world0 \<noteq> 0"
    by (simp add: world0_def)
  have between: "\<forall>r \<in> set [(world_at 20000, Some sell_sbin)].
                   clock_signal (fst r) \<le> clock_signal (world_at 31000)"
    by (simp add: world_at_def)
  have auth: "truthy_str (token buy_sbin)" "token buy_sbin = WEBHOOK_SECRET cfg0"
    by (simp_all add: truthy_str_def buy_sbin_def cfg0_def)
  have within: "clock_signal (world_at 31000) - clock_signal world0 < 60000"
    by (simp add: world_at_def world0_def)
  have served: "serve cfg0 [(world_at 20000, Some sell_sbin)]
                  (server1\<lparr>recentSignals := [(''NSE:SBIN-BUY'', 1000)]\<rparr>)
      = server1\<lparr>recentSignals := [(''NSE:SBIN-BUY'', 1000), (''NSE:SBIN-SELL'', 20000)]\<rparr>"
    by (simp add: handler_defs example_defs world_at_def)
  note skipped =
    duplicate_of_accepted_signal_skipped [OF first fields clock between auth fields within]
  show ?thesis
    unfolding first fst_conv served
    using skipped [unfolded served] within by simp
qed

text \<open>
  C2 as stated fails for two signals of which the first was itself skipped: of three equal
  signals at seconds 1, 31 and 62, the second is skipped as a duplicate and records
  nothing, and the third, 31 seconds after the second, is accepted and ordered.
\<close>

theorem duplicate_window_counterexample:
  "clock_signal (world_at 62000) - clock_signal (world_at 31000) < 60000
   \<and> snd (webhook cfg0 (world_at 31000) (serve cfg0 [(world0, Some buy_sbin)] server1)
            (Some buy_sbin)) =
       [LogWebhookOrder buy_sbin ''skipped'' (Some (Text ''duplicate signal'')) None,
        Respond 200 (StatusJson ''skipped'' (Some ''duplicate signal''))]
   \<and> snd (webhook cfg0 (world_at 62000)
              (serve cfg0 [(world0, Some buy_sbin), (world_at 31000, Some buy_sbin)] server1)
              (Some buy_sbin)) =
       [Respond 200 (StatusJson ''received'' None), GetPositions, GetFunds,
        PlaceOrder 10 ''NSE_EQ|INE062A01020'' ''BUY'',
        LogWebhookOrder buy_sbin ''success'' None (Some ''ORDER-1'')]"
  by (simp add: handler_defs example_defs world_at_def)

end
